theory Spec2Isabelle
  imports Complex_Main "HOL-Library.Log_Nat"
begin

section \<open>Nuclear cross-section tables and lookups (lib/cross_sections.py)\<close>

text \<open>
  The module holds one shared energy table, two tabulated curves (elastic, inelastic) for
  each of eight materials, one \<open>MP\<close> object per material, four property accessors and
  two cross-section lookups that interpolate linearly inside the energy bin found by a
  linear scan.

  Numbers: the source computes with double-precision floats. In the first model a finite
  float is the real number it denotes and the arithmetic is exact, so rounding and
  overflow are not part of it; what it does follow exactly is the control flow (which bin
  is chosen, which table entries are read, which reads fail). Where the last bit of a
  result matters, a second model of the two lookups rounds every table entry and every
  operation to the nearest double. A material selector is a Python \<open>int\<close>, hence
  \<open>int\<close>.
\<close>

subsection \<open>Tables\<close>

definition energy :: "real list" where
  "energy =
    [0.0005, 0.001, 0.0015, 0.002, 0.0025, 0.003, 0.0035, 0.004, 0.0045, 0.005, 0.0055,
     0.006, 0.0065, 0.007, 0.0075, 0.008, 0.009, 0.01, 0.011, 0.012, 0.013, 0.014, 0.015,
     0.0175, 0.02, 0.0225, 0.025, 0.03, 0.035, 0.04, 0.045, 0.05, 0.051, 0.055, 0.06, 0.07,
     0.08, 0.09, 0.1, 0.11, 0.12, 0.14, 0.16, 0.18, 0.2, 0.225, 0.25, 0.275, 0.3, 0.325,
     0.35, 0.375, 0.4, 0.5, 0.7, 1.0, 1.5, 2.0, 2.5]"

definition z6_elastic :: "real list" where
  "z6_elastic =
    [0.0, 0.0, 0.0, 0.0, 0.0, 0.321, 0.335, 0.349, 0.363, 0.377, 0.386, 0.395, 0.404,
     0.413, 0.423, 0.434, 0.456, 0.479, 0.509, 0.539, 0.569, 0.598, 0.628, 0.685, 0.743,
     0.783, 0.822, 0.878, 0.915, 0.938, 0.813, 0.688, 0.678, 0.641, 0.594, 0.515, 0.448,
     0.392, 0.345, 0.305, 0.272, 0.214, 0.167, 0.138, 0.117, 0.098, 0.085, 0.077, 0.072,
     0.068, 0.067, 0.066, 0.067, 0.077, 0.09, 0.102, 0.108, 0.114, 0.113]"

definition z6_inelastic :: "real list" where
  "z6_inelastic =
    [0, 0, 0, 0, 0, 0, 0, 0, 0, 0.013, 0.078, 0.131, 0.175, 0.212, 0.244, 0.271, 0.314,
     0.346, 0.370, 0.389, 0.403, 0.413, 0.421, 0.432, 0.434, 0.432, 0.427, 0.412, 0.394,
     0.376, 0.359, 0.344, 0.288, 0.281, 0.272, 0.257, 0.245, 0.235, 0.228, 0.223, 0.220,
     0.223, 0.213, 0.212, 0.212, 0.212, 0.213, 0.214, 0.216, 0.217, 0.219, 0.221, 0.223,
     0.229, 0.246, 0.261, 0.261, 0.257, 0.255]"

definition z13_elastic :: "real list" where
  "z13_elastic =
    [0, 0, 0, 0, 0, 0.091, 0.164, 0.237, 0.311, 0.384, 0.428, 0.473, 0.518, 0.562, 0.607,
     0.623, 0.654, 0.686, 0.692, 0.699, 0.701, 0.700, 0.700, 0.707, 0.714, 0.737, 0.761,
     0.832, 0.905, 0.976, 0.993, 1.010, 1.007, 0.994, 0.979, 0.921, 0.854, 0.786, 0.720,
     0.658, 0.601, 0.490, 0.382, 0.320, 0.274, 0.231, 0.202, 0.181, 0.167, 0.159, 0.153,
     0.151, 0.151, 0.170, 0.198, 0.220, 0.232, 0.243, 0.242]"

definition z13_inelastic :: "real list" where
  "z13_inelastic =
    [0, 0, 0, 0, 0.123, 0.280, 0.391, 0.474, 0.537, 0.587, 0.626, 0.658, 0.684, 0.705,
     0.722, 0.736, 0.757, 0.771, 0.780, 0.785, 0.787, 0.787, 0.786, 0.777, 0.764, 0.749,
     0.732, 0.699, 0.667, 0.638, 0.611, 0.587, 0.530, 0.518, 0.503, 0.478, 0.456, 0.437,
     0.422, 0.410, 0.402, 0.397, 0.394, 0.393, 0.392, 0.393, 0.395, 0.397, 0.399, 0.402,
     0.405, 0.408, 0.411, 0.415, 0.438, 0.457, 0.460, 0.454, 0.450]"

definition z26_elastic :: "real list" where
  "z26_elastic =
    [0, 0, 0, 0, 0, 0.001, 0.015, 0.030, 0.045, 0.059, 0.109, 0.159, 0.209, 0.259, 0.309,
     0.364, 0.474, 0.584, 0.668, 0.753, 0.819, 0.867, 0.915, 0.964, 1.013, 1.030, 1.047,
     1.063, 1.075, 1.098, 1.121, 1.143, 1.153, 1.192, 1.240, 1.293, 1.306, 1.289, 1.250,
     1.198, 1.137, 0.984, 0.777, 0.669, 0.582, 0.499, 0.438, 0.393, 0.361, 0.340, 0.325,
     0.317, 0.314, 0.346, 0.389, 0.425, 0.444, 0.461, 0.460]"

definition z26_inelastic :: "real list" where
  "z26_inelastic =
    [0, 0, 0, 0, 0, 0, 0, 0.017, 0.174, 0.301, 0.404, 0.490, 0.562, 0.623, 0.676, 0.721,
     0.795, 0.852, 0.896, 0.931, 0.959, 0.981, 0.999, 1.028, 1.044, 1.05, 1.05, 1.04,
     1.021, 0.999, 0.976, 0.952, 0.920, 0.899, 0.873, 0.834, 0.790, 0.753, 0.719, 0.698,
     0.685, 0.672, 0.677, 0.674, 0.673, 0.674, 0.675, 0.678, 0.681, 0.685, 0.689, 0.693,
     0.697, 0.679, 0.710, 0.735, 0.744, 0.740, 0.739]"

definition z29_elastic :: "real list" where
  "z29_elastic =
    [0, 0, 0, 0, 0, 0, 0.017, 0.025, 0.033, 0.077, 0.121, 0.165, 0.208, 0.252, 0.310,
     0.426, 0.541, 0.634, 0.726, 0.800, 0.855, 0.910, 0.971, 1.033, 1.058, 1.083, 1.113,
     1.132, 1.156, 1.161, 1.165, 1.175, 1.216, 1.268, 1.337, 1.368, 1.368, 1.343, 1.300,
     1.245, 1.092, 0.869, 0.752, 0.657, 0.565, 0.496, 0.446, 0.410, 0.384, 0.368, 0.358,
     0.353, 0.385, 0.429, 0.468, 0.488, 0.505, 0.504]"

definition z29_inelastic :: "real list" where
  "z29_inelastic =
    [0, 0, 0, 0, 0, 0, 0, 0.063, 0.225, 0.354, 0.460, 0.548, 0.622, 0.685, 0.739, 0.786,
     0.862, 0.920, 0.966, 1.003, 1.032, 1.055, 1.073, 1.104, 1.121, 1.128, 1.128, 1.118,
     1.100, 1.077, 1.053, 1.029, 0.986, 0.966, 0.942, 0.902, 0.859, 0.822, 0.788, 0.765,
     0.749, 0.732, 0.736, 0.733, 0.732, 0.732, 0.734, 0.737, 0.740, 0.744, 0.748, 0.752,
     0.756, 0.736, 0.768, 0.794, 0.805, 0.804, 0.806]"

definition z73_elastic :: "real list" where
  "z73_elastic =
    [0, 0, 0, 0, 0, 0, 0, 0, 0, 0, 0, 0, 0, 0, 0, 0.004, 0.011, 0.019, 0.072, 0.126, 0.207,
     0.316, 0.425, 0.704, 0.982, 1.124, 1.266, 1.401, 1.506, 1.586, 1.593, 1.600, 1.608,
     1.639, 1.679, 1.773, 1.884, 2.001, 2.109, 2.198, 2.261, 2.255, 1.984, 1.831, 1.679,
     1.506, 1.359, 1.240, 1.146, 1.07, 1.022, 0.985, 0.963, 0.997, 1.053, 1.119, 1.186,
     1.193, 1.192]"

definition z73_inelastic :: "real list" where
  "z73_inelastic =
    [0, 0, 0, 0, 0, 0, 0, 0, 0, 0, 0, 0, 0, 0, 0, 0.012, 0.286, 0.505, 0.685, 0.833, 0.958,
     1.065, 1.156, 1.334, 1.462, 1.557, 1.628, 1.723, 1.779, 1.810, 1.825, 1.831, 1.824,
     1.823, 1.821, 1.807, 1.784, 1.761, 1.736, 1.705, 1.676, 1.629, 1.604, 1.591, 1.578,
     1.574, 1.568, 1.564, 1.560, 1.555, 1.551, 1.546, 1.541, 1.549, 1.599, 1.641, 1.666,
     1.669, 1.674]"

definition z74_elastic :: "real list" where
  "z74_elastic =
    [0, 0, 0, 0, 0, 0, 0, 0, 0, 0, 0, 0, 0, 0, 0, 0.003, 0.010, 0.017, 0.067, 0.118, 0.197,
     0.305, 0.412, 0.694, 0.975, 1.121, 1.267, 1.404, 1.511, 1.591, 1.600, 1.610, 1.618,
     1.649, 1.689, 1.782, 1.893, 2.010, 2.120, 2.211, 2.276, 2.275, 2.006, 1.852, 1.700,
     1.526, 1.378, 1.258, 1.163, 1.090, 1.037, 1.000, 0.977, 1.011, 1.067, 1.134, 1.171,
     1.209, 1.207]"

definition z74_inelastic :: "real list" where
  "z74_inelastic =
    [0, 0, 0, 0, 0, 0, 0, 0, 0, 0, 0, 0, 0, 0, 0, 0, 0.265, 0.489, 0.672, 0.823, 0.951,
     1.059, 1.152, 1.334, 1.465, 1.562, 1.635, 1.733, 1.790, 1.823, 1.840, 1.846, 1.840,
     1.839, 1.838, 1.825, 1.804, 1.782, 1.759, 1.728, 1.700, 1.653, 1.626, 1.612, 1.599,
     1.594, 1.588, 1.583, 1.578, 1.573, 1.568, 1.562, 1.557, 1.568, 1.618, 1.659, 1.686,
     1.689, 1.693]"

definition z78_elastic :: "real list" where
  "z78_elastic =
    [0, 0, 0, 0, 0, 0, 0, 0, 0, 0, 0, 0, 0, 0, 0, 0.002, 0.007, 0.011, 0.053, 0.095, 0.166,
     0.267, 0.368, 0.660, 0.951, 1.110, 1.268, 1.414, 1.527, 1.611, 1.628, 1.644, 1.652,
     1.684, 1.724, 1.815, 1.926, 2.044, 2.159, 2.257, 2.330, 2.344, 2.082, 1.930, 1.776,
     1.599, 1.447, 1.323, 1.224, 1.148, 1.093, 1.053, 1.029, 1.063, 1.120, 1.188, 1.226,
     1.265, 1.263]"

definition z78_inelastic :: "real list" where
  "z78_inelastic =
    [0, 0, 0, 0, 0, 0, 0, 0, 0, 0, 0, 0, 0, 0, 0, 0, 0.176, 0.415, 0.611, 0.774, 0.911,
     1.028, 1.128, 1.325, 1.467, 1.573, 1.653, 1.762, 1.827, 1.866, 1.888, 1.898, 1.947,
     1.935, 1.920, 1.896, 1.867, 1.833, 1.799, 1.762, 1.729, 1.678, 1.658, 1.649, 1.641,
     1.639, 1.638, 1.637, 1.637, 1.637, 1.637, 1.637, 1.638, 1.633, 1.684, 1.727, 1.755,
     1.758, 1.763]"

definition z82_elastic :: "real list" where
  "z82_elastic =
    [0, 0, 0, 0, 0, 0, 0, 0, 0, 0, 0, 0, 0, 0, 0, 0.001, 0.004, 0.007, 0.040, 0.074, 0.138,
     0.231, 0.325, 0.625, 0.925, 1.097, 1.270, 1.426, 1.545, 1.633, 1.659, 1.684, 1.692,
     1.725, 1.765, 1.853, 1.962, 2.083, 2.203, 2.309, 2.392, 2.423, 2.170, 2.020, 1.865,
     1.685, 1.528, 1.399, 1.296, 1.216, 1.158, 1.116, 1.090, 1.124, 1.181, 1.251, 1.291,
     1.330, 1.328]"

definition z82_inelastic :: "real list" where
  "z82_inelastic =
    [0, 0, 0, 0, 0, 0, 0, 0, 0, 0, 0, 0, 0, 0, 0, 0, 0.090, 0.346, 0.556, 0.731, 0.878,
     1.004, 1.112, 1.325, 1.479, 1.594, 1.682, 1.803, 1.877, 1.922, 1.948, 1.962, 2.074,
     2.048, 2.015, 1.979, 1.939, 1.892, 1.845, 1.801, 1.762, 1.706, 1.695, 1.691, 1.690,
     1.691, 1.695, 1.699, 1.705, 1.712, 1.718, 1.725, 1.733, 1.711, 1.763, 1.807, 1.836,
     1.840, 1.845]"

subsection \<open>Materials\<close>

text \<open>The class \<open>MP\<close>: a plain container of seven attributes.\<close>

record MP =
  z :: real
  a :: real
  rho :: real
  radlength :: real
  R :: real
  ecross :: "real list"
  icross :: "real list"

definition carbon :: MP where
  "carbon = \<lparr>z = 6.0, a = 12.01, rho = 2.27 * 10 ^ 3, radlength = 18.8 / 100.0,
     R = 0.94 * (12.01 powr (1 / 3)), ecross = z6_elastic, icross = z6_inelastic\<rparr>"

definition aluminum :: MP where
  "aluminum = \<lparr>z = 13.0, a = 26.92, rho = 2.7 * 10 ^ 3, radlength = 8.9 / 100.0,
     R = 0.94 * (26.92 powr (1 / 3)), ecross = z13_elastic, icross = z13_inelastic\<rparr>"

definition iron :: MP where
  "iron = \<lparr>z = 26, a = 55.85, rho = 7.87 * 10 ^ 3, radlength = 1.76 / 100.0,
     R = 0.94 * (55.85 powr (1 / 3)), ecross = z26_elastic, icross = z26_inelastic\<rparr>"

definition copper :: MP where
  "copper = \<lparr>z = 29, a = 63.546, rho = 8.96 * 10 ^ 3, radlength = 1.43 / 100.0,
     R = 0.94 * (63.55 powr (1 / 3)), ecross = z29_elastic, icross = z29_inelastic\<rparr>"

definition tantalum :: MP where
  "tantalum = \<lparr>z = 73, a = 180.95, rho = 16.6 * 10 ^ 3, radlength = 0.411 / 100.0,
     R = 0.94 * (180.95 powr (1 / 3)), ecross = z73_elastic, icross = z73_inelastic\<rparr>"

definition tungstun :: MP where
  "tungstun = \<lparr>z = 74, a = 183.84, rho = 19.3 * 10 ^ 3, radlength = 0.35 / 100.0,
     R = 0.94 * (183.84 powr (1 / 3)), ecross = z74_elastic, icross = z74_inelastic\<rparr>"

definition platinum :: MP where
  "platinum = \<lparr>z = 78, a = 195.08, rho = 21.45 * 10 ^ 3, radlength = 0.305 / 100.0,
     R = 0.94 * (195.08 powr (1 / 3)), ecross = z78_elastic, icross = z78_inelastic\<rparr>"

definition lead :: MP where
  "lead = \<lparr>z = 82, a = 207.2, rho = 11.35 * 10 ^ 3, radlength = 0.56 / 100.0,
     R = 0.94 * (207.2 powr (1 / 3)), ecross = z82_elastic, icross = z82_inelastic\<rparr>"

subsection \<open>Property accessors\<close>

text \<open>
  Each accessor is an \<open>if\<close>/\<open>elif\<close> chain on the selector that ends in an \<open>else\<close>
  branch; no path raises, so each is a total function. \<open>get_a\<close> returns literals
  instead of reading the objects.
\<close>

definition get_z :: "int \<Rightarrow> real" where
  "get_z ma_index =
     (if ma_index = 0 then z carbon
      else if ma_index = 1 then z aluminum
      else if ma_index = 2 then z iron
      else if ma_index = 3 then z copper
      else if ma_index = 4 then z tantalum
      else if ma_index = 5 then z tungstun
      else if ma_index = 6 then z platinum
      else z lead)"

definition get_a :: "int \<Rightarrow> real" where
  "get_a ma_index =
     (if ma_index = 0 then 12.01
      else if ma_index = 1 then 26.92
      else if ma_index = 2 then 55.85
      else if ma_index = 3 then 63.546
      else if ma_index = 4 then 180.95
      else if ma_index = 5 then 183.84
      else if ma_index = 6 then 195.08
      else 207.2)"

definition get_rho :: "int \<Rightarrow> real" where
  "get_rho ma_index =
     (if ma_index = 0 then rho carbon
      else if ma_index = 1 then rho aluminum
      else if ma_index = 2 then rho iron
      else if ma_index = 3 then rho copper
      else if ma_index = 4 then rho tantalum
      else if ma_index = 5 then rho tungstun
      else if ma_index = 6 then rho platinum
      else rho lead)"

definition get_radlength :: "int \<Rightarrow> real" where
  "get_radlength ma_index =
     (if ma_index = 0 then radlength carbon
      else if ma_index = 1 then radlength aluminum
      else if ma_index = 2 then radlength iron
      else if ma_index = 3 then radlength copper
      else if ma_index = 4 then radlength tantalum
      else if ma_index = 5 then radlength tungstun
      else if ma_index = 6 then radlength platinum
      else radlength lead)"

subsection \<open>Cross-section lookups\<close>

text \<open>
  What can go wrong in a lookup. Reading a numpy array at an index past its end raises
  \<open>IndexError\<close>. A numpy division by zero raises nothing: it yields \<open>inf\<close> or \<open>nan\<close>,
  which is no real number, and every later sum and product stays non-finite; the model
  reports that outcome as \<open>NonFinite\<close>.
\<close>

datatype fault = IndexError | NonFinite

definition np_get :: "real list \<Rightarrow> nat \<Rightarrow> fault + real" where
  "np_get xs i = (if i < length xs then Inr (xs ! i) else Inl IndexError)"

text \<open>
  The scan \<open>for i in range(58): if energyrequest <= energy[i+1]: ilow = i; break\<close>,
  as a recursion over the indices still to visit; \<open>ilow\<close> keeps its initial value 57
  when the loop runs to its end.
\<close>

fun scan_bins :: "real \<Rightarrow> real list \<Rightarrow> nat list \<Rightarrow> fault + nat" where
  "scan_bins energyrequest energy_tab [] = Inr 57"
| "scan_bins energyrequest energy_tab (i # rest) =
     (case np_get energy_tab (i + 1) of
        Inl f \<Rightarrow> Inl f
      | Inr v \<Rightarrow>
          if energyrequest \<le> v then Inr i
          else scan_bins energyrequest energy_tab rest)"

definition find_ilow :: "real \<Rightarrow> real list \<Rightarrow> fault + nat" where
  "find_ilow energyrequest energy_tab = scan_bins energyrequest energy_tab [0..<58]"

text \<open>
  \<open>efrac = (energyrequest - energy[ilow]) / (energy[ilow + 1] - energy[ilow])\<close>.
  The result \<open>None\<close> stands for the non-finite value of a division by zero.
\<close>

definition calc_efrac :: "real \<Rightarrow> real list \<Rightarrow> nat \<Rightarrow> fault + real option" where
  "calc_efrac energyrequest energy_tab ilow =
     (case np_get energy_tab ilow of
        Inl f \<Rightarrow> Inl f
      | Inr e0 \<Rightarrow>
          (case np_get energy_tab (ilow + 1) of
             Inl f \<Rightarrow> Inl f
           | Inr e1 \<Rightarrow>
               if e1 - e0 = 0 then Inr None
               else Inr (Some ((energyrequest - e0) / (e1 - e0)))))"

text \<open>\<open>cross_section = ec[ilow] + efrac*(ec[ilow + 1] - ec[ilow])\<close>.\<close>

definition interpolate :: "real list \<Rightarrow> nat \<Rightarrow> real option \<Rightarrow> fault + real" where
  "interpolate ec ilow efrac =
     (case np_get ec ilow of
        Inl f \<Rightarrow> Inl f
      | Inr c0 \<Rightarrow>
          (case np_get ec (ilow + 1) of
             Inl f \<Rightarrow> Inl f
           | Inr c1 \<Rightarrow>
               (case efrac of
                  None \<Rightarrow> Inl NonFinite
                | Some fr \<Rightarrow> Inr (c0 + fr * (c1 - c0)))))"

text \<open>
  The two lookups. The energy table is a parameter with the module's table as its
  default; the local \<open>energytracker\<close> is assigned and never read.
\<close>

definition get_elastic_crosssection :: "real \<Rightarrow> int \<Rightarrow> real list \<Rightarrow> fault + real" where
  "get_elastic_crosssection energyrequest ma_index energy_tab =
     (let ec = (if ma_index = 0 then ecross carbon
                else if ma_index = 1 then ecross aluminum
                else if ma_index = 2 then ecross iron
                else if ma_index = 3 then ecross copper
                else if ma_index = 4 then ecross tantalum
                else if ma_index = 5 then ecross tungstun
                else if ma_index = 6 then ecross platinum
                else ecross lead)
      in case find_ilow energyrequest energy_tab of
           Inl f \<Rightarrow> Inl f
         | Inr ilow \<Rightarrow>
             (case calc_efrac energyrequest energy_tab ilow of
                Inl f \<Rightarrow> Inl f
              | Inr efrac \<Rightarrow> interpolate ec ilow efrac))"

definition get_inelastic_crosssection :: "real \<Rightarrow> int \<Rightarrow> real list \<Rightarrow> fault + real" where
  "get_inelastic_crosssection energyrequest ma_index energy_tab =
     (let ic = (if ma_index = 0 then icross carbon
                else if ma_index = 1 then icross aluminum
                else if ma_index = 2 then icross iron
                else if ma_index = 3 then icross copper
                else if ma_index = 4 then icross tantalum
                else if ma_index = 5 then icross tungstun
                else if ma_index = 6 then icross platinum
                else icross lead)
      in case find_ilow energyrequest energy_tab of
           Inl f \<Rightarrow> Inl f
         | Inr ilow \<Rightarrow>
             (case calc_efrac energyrequest energy_tab ilow of
                Inl f \<Rightarrow> Inl f
              | Inr efrac \<Rightarrow> interpolate ic ilow efrac))"

subsection \<open>The lookups in double precision\<close>

text \<open>
  Rounding to the nearest double (IEEE 754 binary64, ties to even): \<open>binade x\<close> is the
  exponent \<open>e\<close> with \<open>2^e \<le> x < 2^(e+1)\<close> of a positive \<open>x\<close>, and \<open>fl x\<close> scales the
  magnitude to 53 significant bits, rounds it to the nearest integer, the even one at a
  tie, and scales back. The exponent is not bounded, so overflow and subnormal numbers
  are left out; all tables and all results considered below lie between \<open>2^-11\<close> and 4.
\<close>

definition rne :: "real \<Rightarrow> int" where
  "rne x =
     (let n = \<lfloor>x\<rfloor>; d = x - of_int n
      in if d < 1 / 2 then n else if 1 / 2 < d then n + 1 else if even n then n else n + 1)"

definition binade :: "real \<Rightarrow> int" where
  "binade x = (if 1 \<le> x then bitlen \<lfloor>x\<rfloor> - 1 else - bitlen (\<lceil>1 / x\<rceil> - 1))"









subsection \<open>Vocabulary for the properties\<close>

text \<open>
  The material an integer selector stands for: the \<open>if\<close>/\<open>elif\<close> chain that all six
  functions repeat, here on the whole object.
\<close>

definition material_of :: "int \<Rightarrow> MP" where
  "material_of ma_index =
     (if ma_index = 0 then carbon
      else if ma_index = 1 then aluminum
      else if ma_index = 2 then iron
      else if ma_index = 3 then copper
      else if ma_index = 4 then tantalum
      else if ma_index = 5 then tungstun
      else if ma_index = 6 then platinum
      else lead)"

text \<open>
  The lookup algorithm in the specification's words: the lower bin index is the first
  \<open>i\<close> in 0..57, in increasing order, with \<open>requestedEnergy <= energyTable[i+1]\<close>, and 57
  when there is none; the fraction is
  \<open>(requestedEnergy - energyTable[ilow]) / (energyTable[ilow+1] - energyTable[ilow])\<close>,
  not clamped; the result is \<open>curve[ilow] + efrac * (curve[ilow+1] - curve[ilow])\<close>.
  These three read the tables with \<open>!\<close>, so they mean something only where the entries
  exist.
\<close>

definition spec_ilow :: "real \<Rightarrow> real list \<Rightarrow> nat" where
  "spec_ilow e tab =
     (case List.find (\<lambda>i. e \<le> tab ! (i + 1)) [0..<58] of Some i \<Rightarrow> i | None \<Rightarrow> 57)"

definition spec_efrac :: "real \<Rightarrow> real list \<Rightarrow> real" where
  "spec_efrac e tab =
     (e - tab ! spec_ilow e tab) / (tab ! (spec_ilow e tab + 1) - tab ! spec_ilow e tab)"

definition spec_value :: "real list \<Rightarrow> real \<Rightarrow> real list \<Rightarrow> real" where
  "spec_value curve e tab =
     curve ! spec_ilow e tab
       + spec_efrac e tab * (curve ! (spec_ilow e tab + 1) - curve ! spec_ilow e tab)"

text \<open>
  The registry of the specification: selectors 0 to 7 name carbon, aluminum, iron,
  copper, tantalum, tungsten, platinum and lead, in that order, and no other selector
  names a material.
\<close>

definition registry :: "MP list" where
  "registry = [carbon, aluminum, iron, copper, tantalum, tungstun, platinum, lead]"

definition spec_properties :: "int \<Rightarrow> MP option" where
  "spec_properties selector =
     (if 0 \<le> selector \<and> selector \<le> 7 then Some (registry ! nat selector) else None)"

text \<open>
  A curve is non-decreasing over the bins \<open>k1\<close> to \<open>k2\<close> when each of these bins has both
  its end points in the curve and the upper one is not below the lower one.
\<close>

definition nondecreasing_over :: "real list \<Rightarrow> nat \<Rightarrow> nat \<Rightarrow> bool" where
  "nondecreasing_over curve k1 k2 =
     list_all (\<lambda>k. k + 1 < length curve \<and> curve ! k \<le> curve ! (k + 1)) [k1..<k2 + 1]"

section \<open>Properties\<close>

subsection \<open>The energy table\<close>

lemma length_energy: "length energy = 59"
  by (simp add: energy_def)

lemma energy_successively: "successively (<) energy"
  by (simp add: energy_def)

lemma energy_sorted: "sorted_wrt (<) energy"
  using energy_successively successively_conv_sorted_wrt [of "(<) :: real \<Rightarrow> real \<Rightarrow> bool" energy]
  by (simp add: transp_on_def)

lemma energy_less: "i < j \<Longrightarrow> j < 59 \<Longrightarrow> energy ! i < energy ! j"
  using energy_sorted sorted_wrt_nth_less [of "(<)" energy i j] by (simp add: length_energy)

lemma energy_step: "k \<le> 57 \<Longrightarrow> energy ! k < energy ! (k + 1)"
  by (rule energy_less) simp_all

lemma energy_0: "energy ! 0 = 0.0005" by (simp add: energy_def)

lemma energy_1: "energy ! 1 = 0.001" by (simp add: energy_def)

subsection \<open>The scan\<close>

text \<open>On a table with at least 59 entries every read of the scan succeeds, and the scan
  returns the first index whose upper edge is not below the request.\<close>

lemma scan_bins_find:
  "\<forall>i \<in> set js. i + 1 < length tab \<Longrightarrow>
   scan_bins e tab js =
     Inr (case List.find (\<lambda>i. e \<le> tab ! (i + 1)) js of Some i \<Rightarrow> i | None \<Rightarrow> 57)"
  by (induction js) (simp_all add: np_get_def)

lemma find_ilow_energy: "find_ilow e energy = Inr (spec_ilow e energy)"
  unfolding find_ilow_def spec_ilow_def
  by (rule scan_bins_find) (simp add: length_energy)

lemma spec_ilow_le: "spec_ilow e tab \<le> 57"
proof (cases "List.find (\<lambda>i. e \<le> tab ! (i + 1)) [0..<58]")
  case None
  then show ?thesis by (simp add: spec_ilow_def)
next
  case (Some i)
  then have "i \<in> set [0..<58]" by (auto simp: find_Some_iff)
  with Some show ?thesis by (simp add: spec_ilow_def)
qed

lemma spec_ilow_upper:
  assumes "e \<le> tab ! 58"
  shows "e \<le> tab ! (spec_ilow e tab + 1)"
proof (cases "List.find (\<lambda>i. e \<le> tab ! (i + 1)) [0..<58]")
  case None
  then have "\<forall>i \<in> set [0..<58]. \<not> e \<le> tab ! (i + 1)"
    by (simp add: find_None_iff)
  then have "\<not> e \<le> tab ! (57 + 1)" by (rule bspec) simp
  with assms show ?thesis by simp
next
  case (Some i)
  then have "e \<le> tab ! (i + 1)" by (auto simp: find_Some_iff)
  with Some show ?thesis by (simp add: spec_ilow_def)
qed

lemma spec_ilow_first:
  assumes "j < spec_ilow e tab"
  shows "tab ! (j + 1) < e"
proof (cases "List.find (\<lambda>i. e \<le> tab ! (i + 1)) [0..<58]")
  case None
  from assms spec_ilow_le [of e tab] have "j \<in> set [0..<58]" by simp
  with None have "\<not> e \<le> tab ! (j + 1)" unfolding find_None_iff by blast
  then show ?thesis by simp
next
  case (Some i)
  then obtain n where n: "n < length [0..<58]" "i = [0..<58] ! n"
    "\<forall>m<n. \<not> e \<le> tab ! ([0..<58] ! m + 1)"
    unfolding find_Some_iff by blast
  from n(1,2) have "i = n" by simp
  from Some have "spec_ilow e tab = i" by (simp add: spec_ilow_def)
  with assms \<open>i = n\<close> have jn: "j < n" by simp
  with n(1) have "[0..<58] ! j = j" by simp
  with n(3) jn have "\<not> e \<le> tab ! (j + 1)" by force
  then show ?thesis by simp
qed

lemma spec_ilow_least:
  assumes "k \<le> 57" "e \<le> tab ! (k + 1)"
  shows "spec_ilow e tab \<le> k"
proof (rule ccontr)
  assume "\<not> spec_ilow e tab \<le> k"
  then have "k < spec_ilow e tab" by simp
  then have "tab ! (k + 1) < e" by (rule spec_ilow_first)
  with assms show False by simp
qed

lemma spec_ilow_lower:
  assumes "energy ! 0 \<le> e"
  shows "energy ! spec_ilow e energy \<le> e"
proof (cases "spec_ilow e energy")
  case 0
  with assms show ?thesis by simp
next
  case (Suc j)
  then have "j < spec_ilow e energy" by simp
  then have "energy ! (j + 1) < e" by (rule spec_ilow_first)
  with Suc show ?thesis by simp
qed

lemma spec_ilow_below: "e \<le> energy ! 1 \<Longrightarrow> spec_ilow e energy = 0"
  using spec_ilow_least [of 0 e energy] by simp

lemma spec_ilow_mono:
  assumes "e1 \<le> e2" "e2 \<le> energy ! 58"
  shows "spec_ilow e1 energy \<le> spec_ilow e2 energy"
proof -
  have "e2 \<le> energy ! (spec_ilow e2 energy + 1)" using assms(2) by (rule spec_ilow_upper)
  with assms(1) have "e1 \<le> energy ! (spec_ilow e2 energy + 1)" by simp
  with spec_ilow_le [of e2 energy] show ?thesis by (rule spec_ilow_least)
qed

subsection \<open>Fraction and interpolation\<close>

lemma calc_efrac_energy:
  "calc_efrac e energy (spec_ilow e energy) = Inr (Some (spec_efrac e energy))"
proof -
  let ?k = "spec_ilow e energy"
  have k: "?k \<le> 57" by (rule spec_ilow_le)
  then have "energy ! ?k < energy ! (?k + 1)" by (rule energy_step)
  with k show ?thesis
    by (simp add: calc_efrac_def np_get_def length_energy spec_efrac_def)
qed

lemma interpolate_Some:
  "interpolate curve k (Some fr) =
     (if k + 1 < length curve then Inr (curve ! k + fr * (curve ! (k + 1) - curve ! k))
      else Inl IndexError)"
  by (simp add: interpolate_def np_get_def)

subsection \<open>Selector dispatch\<close>

lemma ecross_material:
  "ecross (material_of s) =
     (if s = 0 then ecross carbon
      else if s = 1 then ecross aluminum
      else if s = 2 then ecross iron
      else if s = 3 then ecross copper
      else if s = 4 then ecross tantalum
      else if s = 5 then ecross tungstun
      else if s = 6 then ecross platinum
      else ecross lead)"
  by (simp add: material_of_def)

lemma icross_material:
  "icross (material_of s) =
     (if s = 0 then icross carbon
      else if s = 1 then icross aluminum
      else if s = 2 then icross iron
      else if s = 3 then icross copper
      else if s = 4 then icross tantalum
      else if s = 5 then icross tungstun
      else if s = 6 then icross platinum
      else icross lead)"
  by (simp add: material_of_def)

lemma elastic_material:
  "get_elastic_crosssection e s tab =
     (case find_ilow e tab of Inl f \<Rightarrow> Inl f
      | Inr ilow \<Rightarrow> (case calc_efrac e tab ilow of Inl f \<Rightarrow> Inl f
          | Inr efrac \<Rightarrow> interpolate (ecross (material_of s)) ilow efrac))"
  unfolding get_elastic_crosssection_def Let_def ecross_material by (rule refl)

lemma inelastic_material:
  "get_inelastic_crosssection e s tab =
     (case find_ilow e tab of Inl f \<Rightarrow> Inl f
      | Inr ilow \<Rightarrow> (case calc_efrac e tab ilow of Inl f \<Rightarrow> Inl f
          | Inr efrac \<Rightarrow> interpolate (icross (material_of s)) ilow efrac))"
  unfolding get_inelastic_crosssection_def Let_def icross_material by (rule refl)

lemma length_ecross: "length (ecross (material_of s)) = (if s = 3 then 58 else 59)"
  by (simp add: material_of_def carbon_def aluminum_def iron_def copper_def tantalum_def
      tungstun_def platinum_def lead_def z6_elastic_def z13_elastic_def z26_elastic_def
      z29_elastic_def z73_elastic_def z74_elastic_def z78_elastic_def z82_elastic_def)

lemma length_icross: "length (icross (material_of s)) = 59"
  by (simp add: material_of_def carbon_def aluminum_def iron_def copper_def tantalum_def
      tungstun_def platinum_def lead_def z6_inelastic_def z13_inelastic_def
      z26_inelastic_def z29_inelastic_def z73_inelastic_def z74_inelastic_def
      z78_inelastic_def z82_inelastic_def)

lemma length_ecross_lead: "length (ecross lead) = 59"
  by (simp add: lead_def z82_elastic_def)

lemma length_icross_lead: "length (icross lead) = 59"
  by (simp add: lead_def z82_inelastic_def)

lemma material_fallback: "s \<notin> {0, 1, 2, 3, 4, 5, 6} \<Longrightarrow> material_of s = lead"
  by (simp add: material_of_def)

lemma get_z_material: "get_z s = z (material_of s)"
  by (simp add: get_z_def material_of_def)

lemma get_a_material: "get_a s = a (material_of s)"
  by (simp add: get_a_def material_of_def carbon_def aluminum_def iron_def copper_def
      tantalum_def tungstun_def platinum_def lead_def)

lemma get_rho_material: "get_rho s = rho (material_of s)"
  by (simp add: get_rho_def material_of_def)

lemma get_radlength_material: "get_radlength s = radlength (material_of s)"
  by (simp add: get_radlength_def material_of_def)

text \<open>
  Both lookups on the module's energy table: the value of the specification's algorithm
  when the curve has the entry above the chosen bin, \<open>IndexError\<close> when it has not.
\<close>

lemma elastic_energy:
  "get_elastic_crosssection e s energy =
     (if spec_ilow e energy + 1 < length (ecross (material_of s))
      then Inr (spec_value (ecross (material_of s)) e energy) else Inl IndexError)"
  by (simp add: elastic_material find_ilow_energy calc_efrac_energy interpolate_Some
      spec_value_def)

lemma inelastic_energy:
  "get_inelastic_crosssection e s energy =
     (if spec_ilow e energy + 1 < length (icross (material_of s))
      then Inr (spec_value (icross (material_of s)) e energy) else Inl IndexError)"
  by (simp add: inelastic_material find_ilow_energy calc_efrac_energy interpolate_Some
      spec_value_def)

subsection \<open>Interpolation on a non-decreasing stretch\<close>

lemma nondecreasing_overD:
  "nondecreasing_over curve k1 k2 \<Longrightarrow> k1 \<le> k \<Longrightarrow> k \<le> k2 \<Longrightarrow>
   k + 1 < length curve \<and> curve ! k \<le> curve ! (k + 1)"
  by (simp add: nondecreasing_over_def list_all_iff del: upt_Suc)

lemma nondecreasing_chain:
  assumes "nondecreasing_over curve k1 k2" "k1 \<le> m" "m \<le> n" "n \<le> k2 + 1"
  shows "curve ! m \<le> curve ! n"
  using assms(3,4)
proof (induction n rule: dec_induct)
  case base
  show ?case by simp
next
  case (step n)
  then have "curve ! m \<le> curve ! n" by simp
  moreover have "curve ! n \<le> curve ! (n + 1)"
    using nondecreasing_overD [OF assms(1), of n] assms(2) step by simp
  ultimately show ?case by simp
qed

lemma lin_lower:
  fixes e t0 t1 c0 c1 :: real
  assumes "t0 < t1" "t0 \<le> e" "c0 \<le> c1"
  shows "c0 \<le> c0 + (e - t0) / (t1 - t0) * (c1 - c0)"
proof -
  from assms have "0 \<le> (e - t0) / (t1 - t0)" by simp
  moreover from assms have "0 \<le> c1 - c0" by simp
  ultimately have "0 \<le> (e - t0) / (t1 - t0) * (c1 - c0)" by (rule mult_nonneg_nonneg)
  then show ?thesis by simp
qed

lemma lin_upper:
  fixes e t0 t1 c0 c1 :: real
  assumes "t0 < t1" "e \<le> t1" "c0 \<le> c1"
  shows "c0 + (e - t0) / (t1 - t0) * (c1 - c0) \<le> c1"
proof -
  from assms have "(e - t0) / (t1 - t0) \<le> 1" by simp
  moreover from assms have "0 \<le> c1 - c0" by simp
  ultimately have "(e - t0) / (t1 - t0) * (c1 - c0) \<le> 1 * (c1 - c0)"
    by (rule mult_right_mono)
  then show ?thesis by simp
qed

lemma lin_mono:
  fixes e1 e2 t0 t1 c0 c1 :: real
  assumes "t0 < t1" "e1 \<le> e2" "c0 \<le> c1"
  shows "c0 + (e1 - t0) / (t1 - t0) * (c1 - c0) \<le> c0 + (e2 - t0) / (t1 - t0) * (c1 - c0)"
proof -
  from assms have "(e1 - t0) / (t1 - t0) \<le> (e2 - t0) / (t1 - t0)"
    by (simp add: divide_right_mono)
  moreover from assms have "0 \<le> c1 - c0" by simp
  ultimately have "(e1 - t0) / (t1 - t0) * (c1 - c0) \<le> (e2 - t0) / (t1 - t0) * (c1 - c0)"
    by (rule mult_right_mono)
  then show ?thesis by simp
qed

text \<open>
  Inside the table the interpolated value lies between the two ends of its bin, so two
  requests in one bin are ordered by the slope of that bin and two requests in different
  bins are ordered through the curve entries between them.
\<close>

lemma spec_value_mono:
  assumes "energy ! 0 \<le> e1" "e1 < e2" "e2 \<le> energy ! 58"
    and nd: "nondecreasing_over curve (spec_ilow e1 energy) (spec_ilow e2 energy)"
  shows "spec_value curve e1 energy \<le> spec_value curve e2 energy"
    and "spec_ilow e1 energy + 1 < length curve"
    and "spec_ilow e2 energy + 1 < length curve"
proof -
  let ?k1 = "spec_ilow e1 energy" and ?k2 = "spec_ilow e2 energy"
  from assms have e1_top: "e1 \<le> energy ! 58" and e2_bot: "energy ! 0 \<le> e2" by simp_all
  have k12: "?k1 \<le> ?k2" using assms(2,3) by (intro spec_ilow_mono) simp_all
  have lo1: "energy ! ?k1 \<le> e1" using assms(1) by (rule spec_ilow_lower)
  have up1: "e1 \<le> energy ! (?k1 + 1)" using e1_top by (rule spec_ilow_upper)
  have lo2: "energy ! ?k2 \<le> e2" using e2_bot by (rule spec_ilow_lower)
  have st1: "energy ! ?k1 < energy ! (?k1 + 1)" using spec_ilow_le by (rule energy_step)
  have st2: "energy ! ?k2 < energy ! (?k2 + 1)" using spec_ilow_le by (rule energy_step)
  have b1: "?k1 + 1 < length curve \<and> curve ! ?k1 \<le> curve ! (?k1 + 1)"
    using nd k12 by (intro nondecreasing_overD [of curve ?k1 ?k2]) simp_all
  have b2: "?k2 + 1 < length curve \<and> curve ! ?k2 \<le> curve ! (?k2 + 1)"
    using nd k12 by (intro nondecreasing_overD [of curve ?k1 ?k2]) simp_all
  from b1 show "?k1 + 1 < length curve" by simp
  from b2 show "?k2 + 1 < length curve" by simp
  show "spec_value curve e1 energy \<le> spec_value curve e2 energy"
  proof (cases "?k1 = ?k2")
    case True
    have "curve ! ?k1 + (e1 - energy ! ?k1) / (energy ! (?k1 + 1) - energy ! ?k1)
            * (curve ! (?k1 + 1) - curve ! ?k1)
          \<le> curve ! ?k1 + (e2 - energy ! ?k1) / (energy ! (?k1 + 1) - energy ! ?k1)
            * (curve ! (?k1 + 1) - curve ! ?k1)"
      using st1 assms(2) b1 by (intro lin_mono) simp_all
    then show ?thesis unfolding spec_value_def spec_efrac_def True [symmetric] .
  next
    case False
    with k12 have less: "?k1 + 1 \<le> ?k2" by simp
    have "spec_value curve e1 energy \<le> curve ! (?k1 + 1)"
      unfolding spec_value_def spec_efrac_def using st1 up1 b1 by (intro lin_upper) simp_all
    also have "curve ! (?k1 + 1) \<le> curve ! ?k2"
      using nd less by (intro nondecreasing_chain [of curve ?k1 ?k2]) simp_all
    also have "curve ! ?k2 \<le> spec_value curve e2 energy"
      unfolding spec_value_def spec_efrac_def using st2 lo2 b2 by (intro lin_lower) simp_all
    finally show ?thesis .
  qed
qed

subsection \<open>Rounding\<close>


lemma binade_upper:
  assumes "0 < x"
  shows "x < 2 powi (binade x + 1)"
proof (cases "1 \<le> x")
  case True
  let ?m = "\<lfloor>x\<rfloor>"
  from True have m: "0 < ?m" by simp
  then have b: "0 \<le> bitlen ?m" by (simp add: bitlen_nonneg)
  have "?m < 2 ^ nat (bitlen ?m)" using bitlen_bounds [OF m] ..
  then have "?m + 1 \<le> 2 ^ nat (bitlen ?m)" by simp
  then have "of_int (?m + 1) \<le> (2::real) ^ nat (bitlen ?m)"
    by (metis of_int_le_iff of_int_numeral of_int_power)
  moreover have "x < of_int (?m + 1)" by linarith
  ultimately have "x < 2 ^ nat (bitlen ?m)" by (rule less_le_trans [rotated])
  with True b show ?thesis by (simp add: binade_def power_int_def)
next
  case False
  let ?m = "\<lceil>1 / x\<rceil>"
  let ?n = "nat (bitlen (?m - 1) - 1)"
  from False assms have "1 < 1 / x" by simp
  then have m: "0 < ?m - 1" by (simp add: less_ceiling_iff)
  then have bl: "1 \<le> bitlen (?m - 1)" by (auto simp: bitlen_alt_def)
  have "2 ^ ?n \<le> ?m - 1" using bitlen_bounds [OF m] ..
  then have "(2::real) ^ ?n \<le> of_int (?m - 1)"
    by (metis of_int_le_iff of_int_numeral of_int_power)
  moreover have "of_int (?m - 1) < 1 / x" by linarith
  ultimately have "2 ^ ?n < 1 / x" by (rule le_less_trans)
  with assms have "x * 2 ^ ?n < 1"
    by (simp add: pos_less_divide_eq mult.commute)
  then have up: "x < 1 / 2 ^ ?n"
    by (simp add: pos_less_divide_eq)
  have "binade x + 1 = - int ?n"
    using False bl by (simp add: binade_def)
  then have "2 powi (binade x + 1) = 1 / (2::real) ^ ?n"
    by (simp add: power_int_minus inverse_eq_divide power_int_def power_one_over)
  with up show ?thesis by simp
qed

lemma rne_nearest: "\<bar>x - of_int (rne x)\<bar> \<le> 1 / 2"
proof -
  have "of_int \<lfloor>x\<rfloor> \<le> x" "x < of_int \<lfloor>x\<rfloor> + 1" by linarith+
  then show ?thesis unfolding rne_def Let_def abs_if by (auto; linarith)
qed





subsection \<open>The double-precision lookups at the tabulated energies\<close>
















section \<open>Claims\<close>

text \<open>
  C1. For every requested energy and every selector, both lookups return
  \<open>curve[ilow] + efrac * (curve[ilow+1] - curve[ilow])\<close> for the bin found by the scan.
  The inelastic lookup does so everywhere and the elastic lookup does so wherever the
  curve has entry \<open>ilow + 1\<close> (\<open>elastic_energy\<close>, \<open>inelastic_energy\<close>). The elastic
  table of copper has 58 entries where all others have 59, so for copper and a request
  above \<open>energy[57] = 2.0\<close> the scan gives \<open>ilow = 57\<close>, the read of \<open>ec[58]\<close> raises
  and no value is returned.
\<close>

theorem C1_copper_elastic_no_value:
  "length (ecross copper) = 58 \<and> get_elastic_crosssection 2.1 3 energy = Inl IndexError"
  by (simp add: get_elastic_crosssection_def find_ilow_def energy_def np_get_def
      calc_efrac_def interpolate_def copper_def z29_elastic_def upt_rec)

text \<open>
  C2, as amended. No selector makes an operation fail. For every integer selector and
  every energy the inelastic lookup returns a value; the elastic lookup returns a value
  for every selector other than 3 and, for selector 3, for every energy up to
  \<open>energy[57]\<close>; and for a selector outside \<open>[0, 7]\<close> the four property accessors and
  both lookups return what they return for selector 7.
\<close>

theorem C2_never_selector_error:
  "(\<exists>v. get_inelastic_crosssection e s energy = Inr v)
   \<and> (s \<noteq> 3 \<or> e \<le> energy ! 57 \<longrightarrow> (\<exists>v. get_elastic_crosssection e s energy = Inr v))
   \<and> (s < 0 \<or> 7 < s \<longrightarrow>
        get_z s = get_z 7 \<and> get_a s = get_a 7 \<and> get_rho s = get_rho 7
        \<and> get_radlength s = get_radlength 7
        \<and> get_elastic_crosssection e s energy = get_elastic_crosssection e 7 energy
        \<and> get_inelastic_crosssection e s energy = get_inelastic_crosssection e 7 energy)"
proof -
  have k: "spec_ilow e energy \<le> 57" by (rule spec_ilow_le)
  then have c1: "\<exists>v. get_inelastic_crosssection e s energy = Inr v"
    by (simp add: inelastic_energy length_icross)
  have c2: "\<exists>v. get_elastic_crosssection e s energy = Inr v" if "s \<noteq> 3 \<or> e \<le> energy ! 57"
  proof (cases "s = 3")
    case False
    with k show ?thesis by (simp add: elastic_energy length_ecross)
  next
    case True
    with that have "e \<le> energy ! (56 + 1)" by simp
    then have "spec_ilow e energy \<le> 56" by (intro spec_ilow_least) simp_all
    with True show ?thesis by (simp add: elastic_energy length_ecross)
  qed
  have c3: "get_z s = get_z 7 \<and> get_a s = get_a 7 \<and> get_rho s = get_rho 7
        \<and> get_radlength s = get_radlength 7
        \<and> get_elastic_crosssection e s energy = get_elastic_crosssection e 7 energy
        \<and> get_inelastic_crosssection e s energy = get_inelastic_crosssection e 7 energy"
    if "s < 0 \<or> 7 < s"
  proof -
    from that have "material_of s = lead" by (intro material_fallback) auto
    moreover have "material_of 7 = lead" by (simp add: material_of_def)
    ultimately show ?thesis
      by (simp add: get_z_material get_a_material get_rho_material get_radlength_material
          elastic_energy inelastic_energy)
  qed
  from c1 c2 c3 show ?thesis by blast
qed

theorem C2_never_selector_error_witness:
  "(0.05::real) \<le> energy ! 57 \<and> (7::int) < 99
   \<and> (\<exists>v. get_inelastic_crosssection 0.05 99 energy = Inr v)
   \<and> (\<exists>v. get_elastic_crosssection 0.05 99 energy = Inr v)
   \<and> (\<exists>v. get_elastic_crosssection 0.05 3 energy = Inr v)
   \<and> get_z 99 = get_z 7 \<and> get_a 99 = get_a 7 \<and> get_rho 99 = get_rho 7
   \<and> get_radlength 99 = get_radlength 7
   \<and> get_elastic_crosssection 0.05 99 energy = get_elastic_crosssection 0.05 7 energy
   \<and> get_inelastic_crosssection 0.05 99 energy = get_inelastic_crosssection 0.05 7 energy"
proof -
  have h1: "(0.05::real) \<le> energy ! 57" by (simp add: energy_def)
  have h2: "(7::int) < 99" by simp
  from C2_never_selector_error [of "0.05" 99] C2_never_selector_error [of "0.05" 3] h1 h2
  show ?thesis by blast
qed

text \<open>
  C2 as stated fails: selector 99 lies outside \<open>[0, 7]\<close>, and the atomic-number
  accessor and the elastic lookup return values (those of lead) instead of failing.
\<close>

theorem C2_counterexample:
  "get_z 99 = 82 \<and> get_elastic_crosssection 0.05 99 energy = Inr 1.684"
  by (simp add: get_z_def get_elastic_crosssection_def find_ilow_def energy_def np_get_def
      calc_efrac_def interpolate_def lead_def z82_elastic_def upt_rec)

text \<open>
  C3. For every integer selector not in \<open>{0, ..., 6}\<close>, negative ones and 7 and above
  alike, each property accessor returns the attribute of lead and each lookup returns
  the interpolated value on the curve of lead, with no error.
\<close>

theorem C3_fallback_to_lead:
  assumes "s \<notin> {0, 1, 2, 3, 4, 5, 6}"
  shows "get_z s = z lead \<and> get_a s = a lead \<and> get_rho s = rho lead
    \<and> get_radlength s = radlength lead
    \<and> get_elastic_crosssection e s energy = Inr (spec_value (ecross lead) e energy)
    \<and> get_inelastic_crosssection e s energy = Inr (spec_value (icross lead) e energy)"
proof -
  have m: "material_of s = lead" using assms by (rule material_fallback)
  have k: "spec_ilow e energy + 1 < 59" using spec_ilow_le [of e energy] by simp
  show ?thesis
    using k
    by (simp add: get_z_material get_a_material get_rho_material get_radlength_material
        elastic_energy inelastic_energy m length_ecross_lead length_icross_lead)
qed

theorem C3_fallback_to_lead_witness:
  "(99::int) \<notin> {0, 1, 2, 3, 4, 5, 6} \<and> (7::int) \<notin> {0, 1, 2, 3, 4, 5, 6}
   \<and> (- 1::int) \<notin> {0, 1, 2, 3, 4, 5, 6}
   \<and> get_z 99 = 82 \<and> get_z 7 = get_z 99 \<and> get_z (- 1) = get_z 99
   \<and> get_a 99 = 207.2 \<and> get_a 7 = get_a 99 \<and> get_a (- 1) = get_a 99
   \<and> get_elastic_crosssection 0.05 7 energy = get_elastic_crosssection 0.05 99 energy
   \<and> get_elastic_crosssection 0.05 (- 1) energy = get_elastic_crosssection 0.05 99 energy
   \<and> get_inelastic_crosssection 0.05 7 energy = get_inelastic_crosssection 0.05 99 energy
   \<and> get_inelastic_crosssection 0.05 (- 1) energy = get_inelastic_crosssection 0.05 99 energy"
  using C3_fallback_to_lead [of 99 "0.05"] C3_fallback_to_lead [of 7 "0.05"]
    C3_fallback_to_lead [of "- 1" "0.05"]
  by (simp add: lead_def)




text \<open>
  C5, as amended. For every requested energy at or above \<open>energy[0]\<close> the fraction
  \<open>efrac\<close> computed by a lookup is not negative. For an energy below \<open>energy[0]\<close> the
  scan stops at once with \<open>ilow = 0\<close> (not through the default 57) and \<open>efrac\<close> is
  negative. The selector has no part in either.
\<close>

theorem C5_efrac_sign:
  "\<exists>k fr. find_ilow e energy = Inr k \<and> calc_efrac e energy k = Inr (Some fr)
     \<and> (energy ! 0 \<le> e \<longrightarrow> 0 \<le> fr) \<and> (e < energy ! 0 \<longrightarrow> k = 0 \<and> fr < 0)"
proof -
  let ?k = "spec_ilow e energy"
  have k: "?k \<le> 57" by (rule spec_ilow_le)
  then have d: "0 < energy ! (?k + 1) - energy ! ?k" using energy_step [of ?k] by simp
  have pos: "0 \<le> spec_efrac e energy" if "energy ! 0 \<le> e"
  proof -
    from that have "0 \<le> e - energy ! ?k" using spec_ilow_lower [of e] by simp
    with d show ?thesis by (simp add: spec_efrac_def)
  qed
  have neg: "?k = 0 \<and> spec_efrac e energy < 0" if "e < energy ! 0"
  proof -
    from that have "e \<le> energy ! 1" using energy_step [of 0] by simp
    then have z: "?k = 0" by (rule spec_ilow_below)
    from that have "e - energy ! 0 < 0" by simp
    with d z show ?thesis by (simp add: spec_efrac_def divide_neg_pos)
  qed
  from pos neg show ?thesis
    using find_ilow_energy [of e] calc_efrac_energy [of e] by blast
qed

theorem C5_efrac_sign_witness:
  "energy ! 0 \<le> 0.006
   \<and> (\<exists>k fr. find_ilow 0.006 energy = Inr k \<and> calc_efrac 0.006 energy k = Inr (Some fr)
         \<and> 0 \<le> fr)
   \<and> 0 < energy ! 0
   \<and> (\<exists>k fr. find_ilow 0 energy = Inr k \<and> calc_efrac 0 energy k = Inr (Some fr)
         \<and> k = 0 \<and> fr < 0)"
proof -
  have h1: "energy ! 0 \<le> 0.006" by (simp add: energy_0)
  have h2: "0 < energy ! 0" by (simp add: energy_0)
  from C5_efrac_sign [of "0.006"] C5_efrac_sign [of 0] h1 h2 show ?thesis by blast
qed

text \<open>
  C5 as stated fails: for the requested energy 0 the scan gives \<open>ilow = 0\<close> and
  \<open>efrac = -1\<close>.
\<close>

theorem C5_counterexample:
  "find_ilow 0 energy = Inr 0 \<and> calc_efrac 0 energy 0 = Inr (Some (- 1))"
  by (simp add: find_ilow_def energy_def np_get_def calc_efrac_def upt_rec)

text \<open>
  C6. The stored \<open>R\<close> of each material is to be \<open>0.94 * A^(1/3)\<close> for its own atomic
  weight \<open>A\<close>. Copper is built with \<open>a = 63.546\<close> and \<open>R = 0.94 * 63.55^(1/3)\<close>, and
  \<open>get_a\<close> returns 63.546 for its selector, so its \<open>R\<close> is not the value derived
  from its atomic weight.
\<close>

theorem C6_copper_radius:
  "R copper \<noteq> 0.94 * (a copper powr (1 / 3)) \<and> R copper \<noteq> 0.94 * (get_a 3 powr (1 / 3))"
proof -
  have "(63.546::real) powr (1 / 3) < 63.55 powr (1 / 3)"
    by (rule powr_less_mono2) simp_all
  then show ?thesis by (simp add: copper_def get_a_def)
qed

text \<open>
  C7. Every lookup is to be free of out-of-range reads. The scan does stay within
  \<open>[0, 57]\<close> (\<open>spec_ilow_le\<close>) and the divisor is never zero (\<open>energy_step\<close>), but the
  elastic curve of copper has no entry 58: at the requested energy 2.5 the scan gives
  \<open>ilow = 57\<close> and the elastic lookup for selector 3 raises \<open>IndexError\<close>.
\<close>

theorem C7_copper_elastic_index_error:
  "find_ilow 2.5 energy = Inr 57 \<and> np_get (ecross copper) (57 + 1) = Inl IndexError
   \<and> get_elastic_crosssection 2.5 3 energy = Inl IndexError"
  by (simp add: get_elastic_crosssection_def find_ilow_def energy_def np_get_def
      calc_efrac_def interpolate_def copper_def z29_elastic_def upt_rec)

text \<open>
  C8. For every selector and two energies \<open>e1 < e2\<close> inside
  \<open>[energy[0], energy[58]]\<close>: when the selected curve is non-decreasing over the bins
  from the one found for \<open>e1\<close> to the one found for \<open>e2\<close>, both lookups return
  values and the value at \<open>e1\<close> is not above the value at \<open>e2\<close> (in exact
  arithmetic).
\<close>

theorem C8_monotone:
  assumes "energy ! 0 \<le> e1" "e1 < e2" "e2 \<le> energy ! 58"
    and "find_ilow e1 energy = Inr k1" "find_ilow e2 energy = Inr k2"
  shows "(nondecreasing_over (ecross (material_of s)) k1 k2 \<longrightarrow>
           (\<exists>v1 v2. get_elastic_crosssection e1 s energy = Inr v1
              \<and> get_elastic_crosssection e2 s energy = Inr v2 \<and> v1 \<le> v2))
       \<and> (nondecreasing_over (icross (material_of s)) k1 k2 \<longrightarrow>
           (\<exists>v1 v2. get_inelastic_crosssection e1 s energy = Inr v1
              \<and> get_inelastic_crosssection e2 s energy = Inr v2 \<and> v1 \<le> v2))"
proof -
  from assms(4,5) have k: "k1 = spec_ilow e1 energy" "k2 = spec_ilow e2 energy"
    by (simp_all add: find_ilow_energy)
  show ?thesis
  proof (intro conjI impI)
    assume "nondecreasing_over (ecross (material_of s)) k1 k2"
    then have nd: "nondecreasing_over (ecross (material_of s)) (spec_ilow e1 energy)
        (spec_ilow e2 energy)" by (simp add: k)
    note m = spec_value_mono [OF assms(1-3) nd]
    from m show "\<exists>v1 v2. get_elastic_crosssection e1 s energy = Inr v1
        \<and> get_elastic_crosssection e2 s energy = Inr v2 \<and> v1 \<le> v2"
      by (simp add: elastic_energy)
  next
    assume "nondecreasing_over (icross (material_of s)) k1 k2"
    then have nd: "nondecreasing_over (icross (material_of s)) (spec_ilow e1 energy)
        (spec_ilow e2 energy)" by (simp add: k)
    note m = spec_value_mono [OF assms(1-3) nd]
    from m show "\<exists>v1 v2. get_inelastic_crosssection e1 s energy = Inr v1
        \<and> get_inelastic_crosssection e2 s energy = Inr v2 \<and> v1 \<le> v2"
      by (simp add: inelastic_energy)
  qed
qed

theorem C8_monotone_witness:
  "energy ! 0 \<le> 0.003 \<and> (0.003::real) < 0.0062 \<and> 0.0062 \<le> energy ! 58
   \<and> find_ilow 0.003 energy = Inr 4 \<and> find_ilow 0.0062 energy = Inr 11
   \<and> nondecreasing_over (ecross (material_of 0)) 4 11
   \<and> nondecreasing_over (icross (material_of 0)) 4 11
   \<and> (\<exists>v1 v2. get_elastic_crosssection 0.003 0 energy = Inr v1
         \<and> get_elastic_crosssection 0.0062 0 energy = Inr v2 \<and> v1 \<le> v2)
   \<and> (\<exists>v1 v2. get_inelastic_crosssection 0.003 0 energy = Inr v1
         \<and> get_inelastic_crosssection 0.0062 0 energy = Inr v2 \<and> v1 \<le> v2)"
proof -
  have h1: "energy ! 0 \<le> 0.003" by (simp add: energy_def)
  have h2: "(0.003::real) < 0.0062" by simp
  have h3: "0.0062 \<le> energy ! 58" by (simp add: energy_def)
  have h4: "find_ilow 0.003 energy = Inr 4"
    by (simp add: find_ilow_def energy_def np_get_def upt_rec)
  have h5: "find_ilow 0.0062 energy = Inr 11"
    by (simp add: find_ilow_def energy_def np_get_def upt_rec)
  have h6: "nondecreasing_over (ecross (material_of 0)) 4 11"
    by (simp add: nondecreasing_over_def material_of_def carbon_def z6_elastic_def upt_rec)
  have h7: "nondecreasing_over (icross (material_of 0)) 4 11"
    by (simp add: nondecreasing_over_def material_of_def carbon_def z6_inelastic_def upt_rec)
  from C8_monotone [OF h1 h2 h3 h4 h5, of 0] h1 h2 h3 h4 h5 h6 h7 show ?thesis by blast
qed

text \<open>
  C9. For every selector in \<open>[0, 7]\<close> each accessor returns the matching attribute of
  the material the registry gives for that selector.
\<close>

theorem C9_accessors_project:
  assumes "0 \<le> s" "s \<le> 7"
  shows "\<exists>m. spec_properties s = Some m \<and> get_z s = z m \<and> get_a s = a m
    \<and> get_rho s = rho m \<and> get_radlength s = radlength m"
proof -
  from assms have "s = 0 \<or> s = 1 \<or> s = 2 \<or> s = 3 \<or> s = 4 \<or> s = 5 \<or> s = 6 \<or> s = 7"
    by arith
  then have "spec_properties s = Some (material_of s)"
    by (elim disjE) (simp_all add: spec_properties_def registry_def material_of_def)
  then show ?thesis
    by (simp add: get_z_material get_a_material get_rho_material get_radlength_material)
qed

theorem C9_accessors_project_witness:
  "(0::int) \<le> 3 \<and> (3::int) \<le> 7
   \<and> (\<exists>m. spec_properties 3 = Some m \<and> get_z 3 = z m \<and> get_a 3 = a m
         \<and> get_rho 3 = rho m \<and> get_radlength 3 = radlength m)
   \<and> spec_properties 3 = Some copper \<and> get_a 3 = 63.546"
  using C9_accessors_project [of 3]
  by (simp add: spec_properties_def registry_def get_a_def)

text \<open>
  C10. For every requested energy below \<open>energy[0]\<close>, zero and negative ones included,
  and every selector, both lookups return a value: the scan gives \<open>ilow = 0\<close>, the
  fraction is negative, and the result continues the line through \<open>curve[0]\<close> and
  \<open>curve[1]\<close> below the table.
\<close>

theorem C10_below_table:
  assumes "e < energy ! 0"
  shows "find_ilow e energy = Inr 0
    \<and> calc_efrac e energy 0 = Inr (Some ((e - energy ! 0) / (energy ! 1 - energy ! 0)))
    \<and> (e - energy ! 0) / (energy ! 1 - energy ! 0) < 0
    \<and> get_elastic_crosssection e s energy =
        Inr (ecross (material_of s) ! 0
             + (e - energy ! 0) / (energy ! 1 - energy ! 0)
               * (ecross (material_of s) ! 1 - ecross (material_of s) ! 0))
    \<and> get_inelastic_crosssection e s energy =
        Inr (icross (material_of s) ! 0
             + (e - energy ! 0) / (energy ! 1 - energy ! 0)
               * (icross (material_of s) ! 1 - icross (material_of s) ! 0))"
proof -
  from assms have "e \<le> energy ! 1" using energy_step [of 0] by simp
  then have k: "spec_ilow e energy = 0" by (rule spec_ilow_below)
  have fr: "spec_efrac e energy = (e - energy ! 0) / (energy ! 1 - energy ! 0)"
    by (simp add: spec_efrac_def k)
  have c1: "find_ilow e energy = Inr 0" by (simp add: find_ilow_energy k)
  have c2: "calc_efrac e energy 0 = Inr (Some ((e - energy ! 0) / (energy ! 1 - energy ! 0)))"
    using calc_efrac_energy [of e] by (simp add: k fr)
  have c3: "(e - energy ! 0) / (energy ! 1 - energy ! 0) < 0"
    using assms energy_step [of 0] by (simp add: divide_neg_pos)
  have c4: "get_elastic_crosssection e s energy =
        Inr (ecross (material_of s) ! 0
             + (e - energy ! 0) / (energy ! 1 - energy ! 0)
               * (ecross (material_of s) ! 1 - ecross (material_of s) ! 0))"
    by (simp add: elastic_energy k length_ecross spec_value_def fr)
  have c5: "get_inelastic_crosssection e s energy =
        Inr (icross (material_of s) ! 0
             + (e - energy ! 0) / (energy ! 1 - energy ! 0)
               * (icross (material_of s) ! 1 - icross (material_of s) ! 0))"
    by (simp add: inelastic_energy k length_icross spec_value_def fr)
  from c1 c2 c3 c4 c5 show ?thesis by blast
qed

theorem C10_below_table_witness:
  "(- 1::real) < energy ! 0 \<and> find_ilow (- 1) energy = Inr 0
   \<and> calc_efrac (- 1) energy 0 = Inr (Some (- 2001))
   \<and> get_elastic_crosssection (- 1) 3 energy = Inr 0
   \<and> get_inelastic_crosssection (- 1) 1 energy = Inr 0
   \<and> (0::real) < energy ! 0
   \<and> get_elastic_crosssection 0 3 energy = Inr 0"
  using C10_below_table [of "- 1" 3] C10_below_table [of "- 1" 1] C10_below_table [of 0 3]
  by (simp add: energy_def material_of_def copper_def aluminum_def z29_elastic_def
      z13_inelastic_def)


end
